theory Spec2Isabelle
  imports Main "HOL-Library.Word"
begin

section \<open>Types, build configuration and failures\<close>

text \<open>
  Addresses are \<open>std::uintptr_t\<close> values; \<open>0\<close> is the null pointer. A static type (a template
  argument) is either \<open>void\<close> or a class. The class declarations are not part of the
  library: the relation \<open>H b d\<close>, read "\<open>std::is_base_of<b, d>::value\<close>", and the layout
  \<open>L d b\<close>, the offset of the base subobject of class \<open>b\<close> in an object of class \<open>d\<close>, are
  parameters of every function that depends on them. The bases are public, unambiguous
  and not virtual.
\<close>

type_synonym uintptr = "64 word"
type_synonym cls = nat

datatype ty = Void | Class cls

text \<open>
  \<open>asserts\<close>: \<open>assert\<close> is compiled in (\<open>NDEBUG\<close> is not defined). \<open>debug\<close>: the macro
  \<open>DEBUG\<close> is defined. With \<open>asserts\<close> off the argument of an \<open>assert\<close> is not evaluated.
\<close>

record build =
  asserts :: bool
  debug :: bool

text \<open>
  \<open>Fatal\<close>: a failed \<open>assert\<close> (the process aborts). \<open>BadWeakPtr\<close>: the exception of
  \<open>shared_from_this\<close> on an object no \<open>shared_ptr\<close> owns. \<open>UndefinedBehaviour\<close>: the code
  dereferences a null or dangling pointer.
\<close>

datatype error = Fatal | BadWeakPtr | UndefinedBehaviour

section \<open>base/uintptr_cast.h\<close>

definition is_void :: "ty \<Rightarrow> bool" where
  "is_void T = (T = Void)"

definition is_same :: "ty \<Rightarrow> ty \<Rightarrow> bool" where
  "is_same T U = (T = U)"

fun is_base_of :: "(cls \<Rightarrow> cls \<Rightarrow> bool) \<Rightarrow> ty \<Rightarrow> ty \<Rightarrow> bool" where
  "is_base_of H (Class b) (Class d) = H b d"
| "is_base_of H _ _ = False"

text \<open>
  What memory holds at the address of a subobject of a live object: the dynamic (most
  derived) class of the complete object and the address of the complete object, both of
  which the virtual table of the subobject gives, and the \<open>weak_this\<close> of
  \<open>std::enable_shared_from_this\<close>, the control block of the \<open>shared_ptr\<close> that owns the
  object (\<open>None\<close> when no \<open>shared_ptr\<close> ever owned it).
\<close>

record object =
  dyn_class :: cls
  complete :: uintptr
  weak_this :: "nat option"

text \<open>
  \<open>dynamic_cast<To*>(From* p)\<close>. A null pointer stays null. A conversion to a base class
  is static: the pointer is moved by the offset of the base in \<open>From\<close>, and nothing is
  read or checked. Otherwise the object at \<open>p\<close> is read, which needs a live object there:
  when \<open>p\<close> is the address of the \<open>From\<close> subobject of a complete object that also is a
  \<open>To\<close>, the result is the address of its \<open>To\<close> subobject; else it is null.
\<close>

definition dynamic_cast ::
  "(cls \<Rightarrow> cls \<Rightarrow> bool) \<Rightarrow> (cls \<Rightarrow> cls \<Rightarrow> uintptr) \<Rightarrow> (uintptr \<rightharpoonup> object) \<Rightarrow> cls \<Rightarrow> cls \<Rightarrow> uintptr
     \<Rightarrow> error + uintptr" where
  "dynamic_cast H L mem From To p =
     (if p = 0 then Inr 0
      else if H To From then Inr (p + L From To)
      else case mem p of
             None \<Rightarrow> Inl UndefinedBehaviour
           | Some obj \<Rightarrow>
               Inr (if H From (dyn_class obj) \<and> p = complete obj + L (dyn_class obj) From
                       \<and> H To (dyn_class obj)
                    then complete obj + L (dyn_class obj) To
                    else 0))"

text \<open>
  \<open>uintptr_cast<From, To>(const std::uintptr_t&)\<close>: four overloads, chosen by which of
  \<open>From\<close> and \<open>To\<close> is \<open>void\<close>.
\<close>

fun uintptr_cast ::
  "(cls \<Rightarrow> cls \<Rightarrow> bool) \<Rightarrow> (cls \<Rightarrow> cls \<Rightarrow> uintptr) \<Rightarrow> (uintptr \<rightharpoonup> object) \<Rightarrow> ty \<Rightarrow> ty \<Rightarrow> uintptr
     \<Rightarrow> error + uintptr" where
  "uintptr_cast H L mem Void Void p = Inr p"
| "uintptr_cast H L mem (Class f) (Class t) p =
     (if is_same (Class f) (Class t) then Inr p else dynamic_cast H L mem f t p)"
| "uintptr_cast H L mem Void (Class t) p = Inr p"
| "uintptr_cast H L mem (Class f) Void p = Inr p"

section \<open>internal::ThreadingChecker\<close>

text \<open>
  \<open>std::thread::id\<close>: the default-constructed value names no thread; the id of a running
  thread is never that value, so the calling thread is a \<open>nat\<close>.
\<close>

datatype thread_id = NoThread | Thread nat

text \<open>
  The two specialisations: \<open>ThreadingChecker<void>\<close> has no state,
  \<open>ThreadingChecker<std::mutex>\<close> holds \<open>valid_thread_id_\<close>.
\<close>

datatype threading = ThreadingVoid | ThreadingMutex

datatype ThreadingChecker = CheckerVoid | CheckerMutex thread_id

text \<open>
  Default construction on thread \<open>t\<close>: the member initialiser of \<open>valid_thread_id_\<close> is
  \<open>std::this_thread::get_id()\<close>.
\<close>

fun new_ThreadingChecker :: "threading \<Rightarrow> nat \<Rightarrow> ThreadingChecker" where
  "new_ThreadingChecker ThreadingVoid t = CheckerVoid"
| "new_ThreadingChecker ThreadingMutex t = CheckerMutex (Thread t)"

text \<open>\<open>CalledOnValidSequence\<close> on thread \<open>t\<close>: the answer and the checker afterwards.\<close>

fun CalledOnValidSequence :: "nat \<Rightarrow> ThreadingChecker \<Rightarrow> bool \<times> ThreadingChecker" where
  "CalledOnValidSequence t CheckerVoid = (True, CheckerVoid)"
| "CalledOnValidSequence t (CheckerMutex v) =
     (if v = NoThread then (True, CheckerMutex (Thread t))
      else (v = Thread t, CheckerMutex v))"

fun DetachFromSequence :: "ThreadingChecker \<Rightarrow> ThreadingChecker" where
  "DetachFromSequence CheckerVoid = CheckerVoid"
| "DetachFromSequence (CheckerMutex v) = CheckerMutex NoThread"

section \<open>The heap: objects, control blocks and reference counts\<close>

text \<open>
  \<open>memory\<close>: the live objects by address. \<open>subject_live c\<close>: the control block \<open>c\<close> of a
  subject still has a strong owner (the owners are outside the library, which only
  observes them). \<open>checkers\<close>: the live \<open>ThreadingChecker\<close> objects by control block; the
  only strong owner of a checker is the factory's \<open>threading_\<close>, so a checker lives exactly
  as long as the factory points to it. \<open>flags c\<close>: the \<open>use_count\<close> of the control block
  \<open>c\<close> of a \<open>Flag\<close> (0: destroyed or never allocated). \<open>fresh\<close>: the next unused control
  block.
\<close>

record world =
  memory :: "uintptr \<rightharpoonup> object"
  subject_live :: "nat \<Rightarrow> bool"
  checkers :: "nat \<rightharpoonup> ThreadingChecker"
  flags :: "nat \<Rightarrow> nat"
  fresh :: nat

text \<open>\<open>std::make_shared<Threading>()\<close> on thread \<open>t\<close>.\<close>

definition make_shared_Threading :: "threading \<Rightarrow> nat \<Rightarrow> world \<Rightarrow> nat \<times> world" where
  "make_shared_Threading T t w =
     (fresh w, w\<lparr>checkers := (checkers w)(fresh w \<mapsto> new_ThreadingChecker T t),
                 fresh := Suc (fresh w)\<rparr>)"

text \<open>\<open>Flag::GetRef()\<close>: \<open>std::make_shared<data_type>()\<close>, one owner.\<close>

definition GetRef :: "world \<Rightarrow> nat \<times> world" where
  "GetRef w = (fresh w, w\<lparr>flags := (flags w)(fresh w := 1), fresh := Suc (fresh w)\<rparr>)"

text \<open>Copying and destroying a \<open>std::shared_ptr<Flag>\<close> (\<open>None\<close>: the null pointer).\<close>

definition copy_ref :: "nat option \<Rightarrow> world \<Rightarrow> world" where
  "copy_ref r w = (case r of None \<Rightarrow> w | Some i \<Rightarrow> w\<lparr>flags := (flags w)(i := flags w i + 1)\<rparr>)"

definition release_ref :: "nat option \<Rightarrow> world \<Rightarrow> world" where
  "release_ref r w = (case r of None \<Rightarrow> w | Some i \<Rightarrow> w\<lparr>flags := (flags w)(i := flags w i - 1)\<rparr>)"

text \<open>
  \<open>Flag::HasRefs(const weak_type&)\<close>: \<open>flag.lock()\<close> yields a further owner \<open>ref\<close> when the
  flag is alive, and \<open>ref.use_count()\<close> counts it.
\<close>

definition lock_flag :: "nat option \<Rightarrow> world \<Rightarrow> nat option \<times> world" where
  "lock_flag wk w =
     (case wk of
        None \<Rightarrow> (None, w)
      | Some i \<Rightarrow> if flags w i = 0 then (None, w) else (Some i, copy_ref (Some i) w))"

definition HasRefs :: "nat option \<Rightarrow> world \<Rightarrow> bool" where
  "HasRefs flag w =
     (case lock_flag flag w of
        (None, w1) \<Rightarrow> False
      | (Some i, w1) \<Rightarrow> 1 \<noteq> flags w1 i)"

text \<open>A \<open>std::weak_ptr\<close> to a checker: \<open>expired()\<close> and \<open>lock()\<close>.\<close>

definition expired :: "world \<Rightarrow> nat option \<Rightarrow> bool" where
  "expired w wk = (case wk of None \<Rightarrow> True | Some c \<Rightarrow> checkers w c = None)"

definition lock :: "world \<Rightarrow> nat option \<Rightarrow> nat option" where
  "lock w wk =
     (case wk of
        None \<Rightarrow> None
      | Some c \<Rightarrow> (case checkers w c of None \<Rightarrow> None | Some ck \<Rightarrow> Some c))"

text \<open>
  A \<open>std::weak_ptr<T>\<close> to a subject is its control block and the stored address;
  \<open>ptr_.lock().get()\<close> is the stored address while the subject has an owner, else null.
\<close>

definition lock_get :: "world \<Rightarrow> (nat \<times> uintptr) option \<Rightarrow> uintptr" where
  "lock_get w p =
     (case p of None \<Rightarrow> 0 | Some (c, a) \<Rightarrow> if subject_live w c then a else 0)"

text \<open>
  \<open>assert(checker->CalledOnValidSequence())\<close> on thread \<open>t\<close>, for the locked checker \<open>c\<close>:
  not evaluated without \<open>asserts\<close>; otherwise the call may bind the checker, and a false
  answer aborts.
\<close>

definition assert_CalledOnValidSequence :: "build \<Rightarrow> nat \<Rightarrow> nat \<Rightarrow> world \<Rightarrow> error + world" where
  "assert_CalledOnValidSequence b t c w =
     (if \<not> asserts b then Inr w
      else case checkers w c of
             None \<Rightarrow> Inl UndefinedBehaviour
           | Some ck \<Rightarrow>
               (case CalledOnValidSequence t ck of
                  (ok, ck') \<Rightarrow>
                    if ok then Inr (w\<lparr>checkers := (checkers w)(c \<mapsto> ck')\<rparr>) else Inl Fatal))"

section \<open>WeakPtr\<close>

text \<open>
  The four members, named as in the source without the trailing underscore: \<open>ref\<close> is
  a \<open>shared_ptr<Flag>\<close>, \<open>threading_checker\<close> a \<open>weak_ptr\<close> to the checker, \<open>ptr\<close> a
  \<open>weak_ptr<T>\<close> to the subject, \<open>raw_ptr\<close> the cached address. The static type \<open>T\<close> is a
  template argument: it is an argument of the functions that depend on it, not a member.
\<close>

record WeakPtr =
  ref :: "nat option"
  threading_checker :: "nat option"
  ptr :: "(nat \<times> uintptr) option"
  raw_ptr :: uintptr

text \<open>\<open>WeakPtr()\<close> and \<open>WeakPtr(std::nullptr_t)\<close>.\<close>

definition WeakPtr_null :: WeakPtr where
  "WeakPtr_null = \<lparr>ref = None, threading_checker = None, ptr = None, raw_ptr = 0\<rparr>"

text \<open>\<open>WeakPtr<T>::get()\<close> on thread \<open>t\<close>, for a class \<open>T\<close>.\<close>

definition get :: "build \<Rightarrow> nat \<Rightarrow> WeakPtr \<Rightarrow> world \<Rightarrow> error + (uintptr \<times> world)" where
  "get b t h w =
     (if expired w (threading_checker h) then Inr (0, w)
      else case lock w (threading_checker h) of
             None \<Rightarrow> Inr (0, w)
           | Some c \<Rightarrow>
               (case assert_CalledOnValidSequence b t c w of
                  Inl e \<Rightarrow> Inl e
                | Inr w' \<Rightarrow> Inr (lock_get w' (ptr h), w')))"

text \<open>\<open>WeakPtr<void>::get()\<close>, the override: the cached address, no look at \<open>ptr_\<close>.\<close>

definition get_void :: "build \<Rightarrow> nat \<Rightarrow> WeakPtr \<Rightarrow> world \<Rightarrow> error + (uintptr \<times> world)" where
  "get_void b t h w =
     (if expired w (threading_checker h) then Inr (0, w)
      else case lock w (threading_checker h) of
             None \<Rightarrow> Inr (0, w)
           | Some c \<Rightarrow>
               (case assert_CalledOnValidSequence b t c w of
                  Inl e \<Rightarrow> Inl e
                | Inr w' \<Rightarrow> Inr (raw_ptr h, w')))"

text \<open>\<open>get()\<close> is virtual: the static type of the handle selects the body.\<close>

fun get_of :: "ty \<Rightarrow> build \<Rightarrow> nat \<Rightarrow> WeakPtr \<Rightarrow> world \<Rightarrow> error + (uintptr \<times> world)" where
  "get_of Void b t h w = get_void b t h w"
| "get_of (Class k) b t h w = get b t h w"

text \<open>\<open>operator std::uintptr_t()\<close>, which \<open>hash<WeakPtr<void>>\<close> returns.\<close>

definition hash :: "WeakPtr \<Rightarrow> uintptr" where
  "hash h = raw_ptr h"

text \<open>\<open>reset()\<close>: the three pointers are reset (the flag loses an owner), the address zeroed.\<close>

definition reset :: "WeakPtr \<Rightarrow> world \<Rightarrow> WeakPtr \<times> world" where
  "reset h w = (WeakPtr_null, release_ref (ref h) w)"

text \<open>The destructor: \<open>ref_\<close> gives up its share of the flag.\<close>

definition WeakPtr_dtor :: "WeakPtr \<Rightarrow> world \<Rightarrow> world" where
  "WeakPtr_dtor h w = release_ref (ref h) w"

text \<open>
  The private constructor \<open>WeakPtr(shared_ptr<T> ptr, shared_ptr<ThreadingChecker> flag,
  shared_ptr<Flag> ref)\<close>: \<open>ptr\<close> is \<open>None\<close> for an empty \<open>shared_ptr\<close>; \<open>raw_ptr\<close> is
  \<open>uintptr_cast<T, T>\<close> of \<open>ptr.get()\<close>, the same-type passthrough.
\<close>

definition WeakPtr_ctor ::
  "(nat \<times> uintptr) option \<Rightarrow> nat option \<Rightarrow> nat option \<Rightarrow> world \<Rightarrow> WeakPtr \<times> world" where
  "WeakPtr_ctor sp flag r w =
     (\<lparr>ref = r, threading_checker = flag, ptr = sp,
       raw_ptr = (case sp of None \<Rightarrow> 0 | Some (c, a) \<Rightarrow> a)\<rparr>,
      copy_ref r w)"

text \<open>
  \<open>template <typename U> WeakPtr(const WeakPtr<U>& other)\<close>, constructing a
  \<open>WeakPtr<T>\<close>. The specialisation \<open>WeakPtr<void>\<close> declares no constructor of its own;
  the calls \<open>WeakPtr<void>(*this)\<close> and \<open>WeakPtr<void>(other)\<close> in \<open>equal\<close> are read as
  this constructor at \<open>T = void\<close>.
\<close>

definition WeakPtr_from ::
  "(cls \<Rightarrow> cls \<Rightarrow> bool) \<Rightarrow> (cls \<Rightarrow> cls \<Rightarrow> uintptr) \<Rightarrow> ty \<Rightarrow> ty \<Rightarrow> WeakPtr \<Rightarrow> world
     \<Rightarrow> error + (WeakPtr \<times> world)" where
  "WeakPtr_from H L U T other w =
     (case uintptr_cast H L (memory w) U T (raw_ptr other) of
        Inl e \<Rightarrow> Inl e
      | Inr r \<Rightarrow>
          Inr (\<lparr>ref = ref other, threading_checker = threading_checker other,
                ptr = ptr other, raw_ptr = r\<rparr>,
               copy_ref (ref other) w))"

text \<open>
  \<open>WeakPtr(const WeakPtr<void>& other)\<close>, constructing a \<open>WeakPtr<T>\<close> for a class \<open>T\<close>:
  the members are copied, the address goes through \<open>uintptr_cast<void, T>\<close>, and a null
  address resets the new handle.
\<close>

definition WeakPtr_from_void ::
  "(cls \<Rightarrow> cls \<Rightarrow> bool) \<Rightarrow> (cls \<Rightarrow> cls \<Rightarrow> uintptr) \<Rightarrow> cls \<Rightarrow> WeakPtr \<Rightarrow> world
     \<Rightarrow> error + (WeakPtr \<times> world)" where
  "WeakPtr_from_void H L T other w =
     (case uintptr_cast H L (memory w) Void (Class T) (raw_ptr other) of
        Inl e \<Rightarrow> Inl e
      | Inr r \<Rightarrow>
          (let h = \<lparr>ref = ref other, threading_checker = threading_checker other,
                    ptr = ptr other, raw_ptr = r\<rparr>;
               w1 = copy_ref (ref other) w
           in if raw_ptr h = 0 then Inr (reset h w1) else Inr (h, w1)))"

text \<open>\<open>get() == other.get()\<close>: both calls on the same thread, the left one first.\<close>

definition get_equal ::
  "(world \<Rightarrow> error + (uintptr \<times> world)) \<Rightarrow> (world \<Rightarrow> error + (uintptr \<times> world)) \<Rightarrow> world
     \<Rightarrow> error + (bool \<times> world)" where
  "get_equal g1 g2 w =
     (case g1 w of
        Inl e \<Rightarrow> Inl e
      | Inr (a1, w1) \<Rightarrow>
          (case g2 w1 of Inl e \<Rightarrow> Inl e | Inr (a2, w2) \<Rightarrow> Inr (a1 = a2, w2)))"

text \<open>\<open>WeakPtr<T>::operator==(const WeakPtr<T>&)\<close> for a class \<open>T\<close>.\<close>

definition operator_eq :: "build \<Rightarrow> nat \<Rightarrow> WeakPtr \<Rightarrow> WeakPtr \<Rightarrow> world \<Rightarrow> error + (bool \<times> world)" where
  "operator_eq b t h other w = get_equal (get b t h) (get b t other) w"

text \<open>
  A temporary handle lives to the end of the full expression: \<open>with_temporary\<close> runs the
  rest of the expression and then the destructor of the temporary.
\<close>

definition with_temporary ::
  "error + (WeakPtr \<times> world) \<Rightarrow> (WeakPtr \<Rightarrow> world \<Rightarrow> error + (bool \<times> world)) \<Rightarrow> error + (bool \<times> world)" where
  "with_temporary tmp body =
     (case tmp of
        Inl e \<Rightarrow> Inl e
      | Inr (x, w1) \<Rightarrow>
          (case body x w1 of Inl e \<Rightarrow> Inl e | Inr (r, w2) \<Rightarrow> Inr (r, WeakPtr_dtor x w2)))"

text \<open>
  \<open>WeakPtr<T>::equal(const WeakPtr<U>& other)\<close>, called on \<open>h\<close>: the four overloads, chosen
  by which of \<open>T\<close> and \<open>U\<close> is \<open>void\<close>. In the overload for two classes, the call
  \<open>other.equal(WeakPtr<U>(*this))\<close> and the call \<open>equal(WeakPtr<T>(*this))\<close> both reach the
  same-type branch, a comparison of two \<open>get()\<close>.
\<close>

fun equal_WeakPtr ::
  "(cls \<Rightarrow> cls \<Rightarrow> bool) \<Rightarrow> (cls \<Rightarrow> cls \<Rightarrow> uintptr) \<Rightarrow> build \<Rightarrow> nat \<Rightarrow> ty \<Rightarrow> ty \<Rightarrow> WeakPtr \<Rightarrow> WeakPtr
     \<Rightarrow> world \<Rightarrow> error + (bool \<times> world)" where
  "equal_WeakPtr H L b t Void Void h other w =
     get_equal (get_void b t h) (get_void b t other) w"
| "equal_WeakPtr H L b t (Class T) (Class U) h other w =
     (if is_same (Class T) (Class U) then get_equal (get b t h) (get b t other) w
      else if is_base_of H (Class U) (Class T) then
        with_temporary (WeakPtr_from H L (Class T) (Class U) h w)
          (\<lambda>tmp. get_equal (get b t other) (get b t tmp))
      else if is_base_of H (Class T) (Class U) then
        with_temporary (WeakPtr_from H L (Class T) (Class T) h w)
          (\<lambda>tmp. get_equal (get b t h) (get b t tmp))
      else Inr (False, w))"
| "equal_WeakPtr H L b t (Class T) Void h other w =
     with_temporary (WeakPtr_from H L (Class T) Void h w)
       (\<lambda>tmp. get_equal (get_void b t other) (get_void b t tmp))"
| "equal_WeakPtr H L b t Void (Class U) h other w =
     with_temporary (WeakPtr_from H L (Class U) Void other w)
       (\<lambda>tmp. get_equal (get_void b t h) (get_void b t tmp))"

section \<open>WeakPtrFactory\<close>

text \<open>
  \<open>shared_from_this()\<close> at address \<open>a\<close>: the owning \<open>shared_ptr\<close>, as control block and
  address; \<open>std::bad_weak_ptr\<close> when no \<open>shared_ptr\<close> owns the object.
\<close>

definition shared_from_this :: "world \<Rightarrow> uintptr \<Rightarrow> error + (nat \<times> uintptr) option" where
  "shared_from_this w a =
     (case memory w a of
        None \<Rightarrow> Inl UndefinedBehaviour
      | Some obj \<Rightarrow>
          (case weak_this obj of
             None \<Rightarrow> Inl BadWeakPtr
           | Some c \<Rightarrow> if subject_live w c then Inr (Some (c, a)) else Inl BadWeakPtr))"

text \<open>The free function \<open>StaticAsWeakPtr(T* t)\<close>.\<close>

definition StaticAsWeakPtr :: "build \<Rightarrow> world \<Rightarrow> uintptr \<Rightarrow> error + (nat \<times> uintptr) option" where
  "StaticAsWeakPtr b w t =
     (if asserts b \<and> t = 0 then Inl Fatal
      else if \<not> debug b \<and> t = 0 then Inr None
      else if t = 0 then Inl UndefinedBehaviour
      else shared_from_this w t)"

text \<open>
  The members of the factory: \<open>Threading\<close> is the template argument,
  \<open>factory_threading\<close> the member \<open>threading_\<close>, a \<open>shared_ptr<Threading>\<close> that is never
  null, \<open>factory_ref\<close> the member \<open>ref_\<close>, a \<open>shared_ptr<Flag>\<close>, and \<open>factory_ptr\<close> the
  member \<open>ptr_\<close>, the subject.
\<close>

record WeakPtrFactory =
  Threading :: threading
  factory_threading :: nat
  factory_ref :: "nat option"
  factory_ptr :: uintptr

text \<open>\<open>WeakPtrFactory(T* ptr)\<close> on thread \<open>t\<close>: the default member initialisers, then \<open>ptr_\<close>.\<close>

definition new_WeakPtrFactory :: "threading \<Rightarrow> nat \<Rightarrow> uintptr \<Rightarrow> world \<Rightarrow> WeakPtrFactory \<times> world" where
  "new_WeakPtrFactory T t p w =
     (case make_shared_Threading T t w of
        (c, w1) \<Rightarrow>
          (case GetRef w1 of
             (r, w2) \<Rightarrow>
               (\<lparr>Threading = T, factory_threading = c, factory_ref = Some r, factory_ptr = p\<rparr>, w2)))"

definition GetWeakPtr :: "build \<Rightarrow> WeakPtrFactory \<Rightarrow> world \<Rightarrow> error + (WeakPtr \<times> world)" where
  "GetWeakPtr b f w =
     (if asserts b \<and> factory_ptr f = 0 then Inl Fatal
      else case StaticAsWeakPtr b w (factory_ptr f) of
             Inl e \<Rightarrow> Inl e
           | Inr sp \<Rightarrow> Inr (WeakPtr_ctor sp (Some (factory_threading f)) (factory_ref f) w))"

text \<open>
  \<open>InvalidateWeakPtrs()\<close> on thread \<open>t\<close>: a new checker is made, the assignment to
  \<open>threading_\<close> drops the only owner of the old one, which is destroyed; then \<open>ref_\<close> is
  set to null, which gives up the factory's share of the flag.
\<close>

definition InvalidateWeakPtrs :: "nat \<Rightarrow> WeakPtrFactory \<Rightarrow> world \<Rightarrow> WeakPtrFactory \<times> world" where
  "InvalidateWeakPtrs t f w =
     (case make_shared_Threading (Threading f) t w of
        (c, w1) \<Rightarrow>
          (f\<lparr>factory_threading := c, factory_ref := None\<rparr>,
           release_ref (factory_ref f) (w1\<lparr>checkers := (checkers w1)(factory_threading f := None)\<rparr>)))"

definition HasWeakPtrs :: "WeakPtrFactory \<Rightarrow> world \<Rightarrow> bool" where
  "HasWeakPtrs f w = HasRefs (factory_ref f) w"

section \<open>A subject, its factory and the handles its clients hold\<close>

text \<open>
  The owners of the subject at address \<open>a\<close> let go of it: the object leaves memory and its
  control block has no strong owner any more.
\<close>

definition destroy_subject :: "uintptr \<Rightarrow> world \<Rightarrow> world" where
  "destroy_subject a w =
     (case memory w a of
        None \<Rightarrow> w
      | Some obj \<Rightarrow>
          w\<lparr>memory := (memory w)(a := None),
            subject_live :=
              (case weak_this obj of
                 None \<Rightarrow> subject_live w
               | Some c \<Rightarrow> (subject_live w)(c := False))\<rparr>)"

text \<open>
  A program that uses the library: the heap, one factory, and the handles the clients
  have been given, in the order of issue. Its steps are the calls a client can make:
  \<open>GetWeakPtr()\<close>; \<open>InvalidateWeakPtrs()\<close> on a thread; \<open>get()\<close> on a held handle, at a
  static type and on a thread; \<open>reset()\<close> on a held handle; the destruction of the subject.
  A call on a handle that was never issued is no step.
\<close>

record sys =
  sys_world :: world
  sys_factory :: WeakPtrFactory
  sys_held :: "WeakPtr list"

datatype event =
    DoGetWeakPtr
  | DoInvalidateWeakPtrs nat
  | DoGet ty nat nat
  | DoReset nat
  | DoDestroySubject

fun exec :: "build \<Rightarrow> event \<Rightarrow> sys \<Rightarrow> error + sys" where
  "exec b DoGetWeakPtr s =
     (case GetWeakPtr b (sys_factory s) (sys_world s) of
        Inl e \<Rightarrow> Inl e
      | Inr (h, w) \<Rightarrow> Inr (s\<lparr>sys_world := w, sys_held := sys_held s @ [h]\<rparr>))"
| "exec b (DoInvalidateWeakPtrs t) s =
     (case InvalidateWeakPtrs t (sys_factory s) (sys_world s) of
        (f, w) \<Rightarrow> Inr (s\<lparr>sys_world := w, sys_factory := f\<rparr>))"
| "exec b (DoGet T i t) s =
     (if i < length (sys_held s) then
        (case get_of T b t (sys_held s ! i) (sys_world s) of
           Inl e \<Rightarrow> Inl e
         | Inr (a, w) \<Rightarrow> Inr (s\<lparr>sys_world := w\<rparr>))
      else Inr s)"
| "exec b (DoReset i) s =
     (if i < length (sys_held s) then
        (case reset (sys_held s ! i) (sys_world s) of
           (h, w) \<Rightarrow> Inr (s\<lparr>sys_world := w, sys_held := (sys_held s)[i := h]\<rparr>))
      else Inr s)"
| "exec b DoDestroySubject s =
     Inr (s\<lparr>sys_world := destroy_subject (factory_ptr (sys_factory s)) (sys_world s)\<rparr>)"

fun run :: "build \<Rightarrow> event list \<Rightarrow> sys \<Rightarrow> error + sys" where
  "run b [] s = Inr s"
| "run b (e # es) s = (case exec b e s of Inl x \<Rightarrow> Inl x | Inr s' \<Rightarrow> run b es s')"

text \<open>
  The start: a subject of class \<open>k\<close> at address \<open>a\<close>, owned by a \<open>shared_ptr\<close> with control
  block 0, and a factory for it constructed on thread \<open>t\<close>; no handle issued yet.
\<close>

definition new_sys :: "threading \<Rightarrow> nat \<Rightarrow> uintptr \<Rightarrow> cls \<Rightarrow> sys" where
  "new_sys T t a k =
     (case new_WeakPtrFactory T t a
             \<lparr>memory = [a \<mapsto> \<lparr>dyn_class = k, complete = a, weak_this = Some 0\<rparr>],
              subject_live = (\<lambda>c. c = 0),
              checkers = Map.empty,
              flags = (\<lambda>c. 0),
              fresh = 0\<rparr> of
        (f, w) \<Rightarrow> \<lparr>sys_world = w, sys_factory = f, sys_held = []\<rparr>)"

text \<open>
  What the steps keep true. The checker of a held handle was allocated (its control block
  is below \<open>n\<close>), and it is the factory's current one, \<open>ft\<close>, or destroyed. The factory's
  checker was allocated and is alive.
\<close>

definition handle_wf :: "nat \<Rightarrow> (nat \<rightharpoonup> ThreadingChecker) \<Rightarrow> nat \<Rightarrow> WeakPtr \<Rightarrow> bool" where
  "handle_wf n m ft h =
     (case threading_checker h of
        None \<Rightarrow> True
      | Some c \<Rightarrow> c < n \<and> (c = ft \<or> m c = None))"

definition sys_wf :: "sys \<Rightarrow> bool" where
  "sys_wf s =
     (factory_threading (sys_factory s) < fresh (sys_world s)
      \<and> checkers (sys_world s) (factory_threading (sys_factory s)) \<noteq> None
      \<and> list_all (handle_wf (fresh (sys_world s)) (checkers (sys_world s))
                    (factory_threading (sys_factory s)))
           (sys_held s))"





text \<open>
  \<open>resolve()\<close> as the specification words it, for a handle of a class type: an expired
  token gives empty; otherwise, with \<open>asserts\<close>, the token's check runs on the calling
  thread and a mismatch is fatal; then the subject's address, or empty when the subject
  is gone.
\<close>

definition resolve_spec :: "build \<Rightarrow> nat \<Rightarrow> WeakPtr \<Rightarrow> world \<Rightarrow> error + (uintptr \<times> world)" where
  "resolve_spec b t h w =
     (case threading_checker h of
        None \<Rightarrow> Inr (0, w)
      | Some c \<Rightarrow>
          (case checkers w c of
             None \<Rightarrow> Inr (0, w)
           | Some ck \<Rightarrow>
               if asserts b \<and> \<not> fst (CalledOnValidSequence t ck) then Inl Fatal
               else
                 (let w' = (if asserts b
                            then w\<lparr>checkers := (checkers w)(c \<mapsto> snd (CalledOnValidSequence t ck))\<rparr>
                            else w)
                  in case ptr h of
                       None \<Rightarrow> Inr (0, w')
                     | Some (sc, a) \<Rightarrow> Inr (if subject_live w' sc then a else 0, w'))))"

text \<open>
  Modelled from the spec: \<open>erase_type()\<close>. The source declares no constructor of
  \<open>WeakPtr<void>\<close> from a typed handle (the calls \<open>WeakPtr<void>(*this)\<close> and
  \<open>WeakPtr<void>(other)\<close> in \<open>equal\<close> name one), so the operation itself is missing. After
  the specification, a handle carries its token reference, its subject reference, its
  flag and its cached address; converting between a class and the type-neutral view
  is a passthrough, an address reinterpretation only. So erasing keeps the three
  references (the flag gains an owner) and sends the address through
  \<open>uintptr_cast<T, void>\<close>.
\<close>

definition erase_type ::
  "(cls \<Rightarrow> cls \<Rightarrow> bool) \<Rightarrow> (cls \<Rightarrow> cls \<Rightarrow> uintptr) \<Rightarrow> cls \<Rightarrow> WeakPtr \<Rightarrow> world
     \<Rightarrow> error + (WeakPtr \<times> world)" where
  "erase_type H L T h w =
     (case uintptr_cast H L (memory w) (Class T) Void (raw_ptr h) of
        Inl e \<Rightarrow> Inl e
      | Inr r \<Rightarrow>
          Inr (\<lparr>ref = ref h, threading_checker = threading_checker h, ptr = ptr h, raw_ptr = r\<rparr>,
               copy_ref (ref h) w))"

text \<open>
  \<open>erase_type()\<close> on a handle of class \<open>T\<close>, then \<open>recover_type<U>()\<close>, which is the
  constructor \<open>WeakPtr<U>(const WeakPtr<void>&)\<close> of the source; the erased handle stays
  alive (it is the one a heterogeneous collection stores).
\<close>

definition erase_then_recover ::
  "(cls \<Rightarrow> cls \<Rightarrow> bool) \<Rightarrow> (cls \<Rightarrow> cls \<Rightarrow> uintptr) \<Rightarrow> cls \<Rightarrow> cls \<Rightarrow> WeakPtr \<Rightarrow> world
     \<Rightarrow> error + (WeakPtr \<times> world)" where
  "erase_then_recover H L T U h w =
     (case erase_type H L T h w of
        Inl e \<Rightarrow> Inl e
      | Inr (erased, w1) \<Rightarrow> WeakPtr_from_void H L U erased w1)"

text \<open>
  A class hierarchy for the examples: class 1 derives from class 0, every other class
  is on its own. With one base only, the base subobject lies at the start of the object.
\<close>

definition base_derived :: "cls \<Rightarrow> cls \<Rightarrow> bool" where
  "base_derived b d = (b = d \<or> (b = 0 \<and> d = 1))"

definition no_offset :: "cls \<Rightarrow> cls \<Rightarrow> uintptr" where
  "no_offset d b = 0"

text \<open>
  A heap for the examples: an object of class 0 at \<open>0x1000\<close> and an object of class 1 at
  \<open>0x2000\<close>, each owned by a \<open>shared_ptr\<close>, with control blocks 0 and 1.
\<close>

definition two_subjects :: world where
  "two_subjects =
     \<lparr>memory = [0x1000 \<mapsto> \<lparr>dyn_class = 0, complete = 0x1000, weak_this = Some 0\<rparr>,
                0x2000 \<mapsto> \<lparr>dyn_class = 1, complete = 0x2000, weak_this = Some 1\<rparr>],
      subject_live = (\<lambda>c. c < 2),
      checkers = Map.empty,
      flags = (\<lambda>c. 0),
      fresh = 2\<rparr>"




section \<open>The checker as a state machine\<close>

text \<open>
  C5 (as the code has it). The checking token starts bound to the thread that constructs
  it. A check in the unbound state records the calling thread and succeeds; a check in
  a bound state succeeds exactly when the calling thread is the recorded one, and leaves
  the record as it is; detach returns the token to the unbound state, whatever it was.
\<close>

theorem checker_state_machine:
  "new_ThreadingChecker ThreadingMutex t0 = CheckerMutex (Thread t0)
   \<and> CalledOnValidSequence t (CheckerMutex NoThread) = (True, CheckerMutex (Thread t))
   \<and> CalledOnValidSequence t (CheckerMutex (Thread u)) = (t = u, CheckerMutex (Thread u))
   \<and> DetachFromSequence (CheckerMutex v) = CheckerMutex NoThread
   \<and> CalledOnValidSequence t (DetachFromSequence (CheckerMutex v)) = (True, CheckerMutex (Thread t))"
  by auto

theorem checker_state_machine_witness:
  "new_ThreadingChecker ThreadingMutex 1 = CheckerMutex (Thread 1)
   \<and> CalledOnValidSequence 2 (CheckerMutex (Thread 1)) = (False, CheckerMutex (Thread 1))
   \<and> CalledOnValidSequence 2 (DetachFromSequence (CheckerMutex (Thread 1))) = (True, CheckerMutex (Thread 2))"
  using checker_state_machine [of 1 2 1 "Thread 1"] by simp

text \<open>
  C5 (as the claim has it) fails: a token constructed on thread 1 is not in the unbound
  state, and its first check, made on thread 2, does not record thread 2 and does not
  succeed.
\<close>

theorem checker_starts_bound_counterexample:
  "new_ThreadingChecker ThreadingMutex 1 \<noteq> CheckerMutex NoThread
   \<and> CalledOnValidSequence 2 (new_ThreadingChecker ThreadingMutex 1) = (False, CheckerMutex (Thread 1))"
  by simp

section \<open>Invariants of the steps\<close>

lemma sys_wf_new: "sys_wf (new_sys T t a k)"
  by (simp add: sys_wf_def new_sys_def new_WeakPtrFactory_def make_shared_Threading_def GetRef_def)
























text \<open>The definitions that evaluate a run on concrete data.\<close>

lemmas evals = new_sys_def new_WeakPtrFactory_def make_shared_Threading_def GetRef_def
  GetWeakPtr_def StaticAsWeakPtr_def shared_from_this_def WeakPtr_ctor_def copy_ref_def release_ref_def
  InvalidateWeakPtrs_def get_def get_void_def expired_def lock_def lock_get_def
  assert_CalledOnValidSequence_def destroy_subject_def reset_def WeakPtr_null_def


section \<open>Generations of handles\<close>




section \<open>Resolving a handle\<close>

text \<open>
  C1. \<open>WeakPtr<T>::get()\<close> for a class \<open>T\<close> computes what the specification's algorithm
  computes: empty for an expired token; otherwise, with \<open>asserts\<close>, the token's check on
  the calling thread, fatal on a mismatch; then the result of locking the subject, empty
  when the subject is gone and its address otherwise.
\<close>

theorem get_algorithm: "get b t h w = resolve_spec b t h w"
  by (auto simp: get_def resolve_spec_def expired_def lock_def assert_CalledOnValidSequence_def lock_get_def Let_def
      split: option.splits prod.splits sum.splits)

theorem get_algorithm_witness:
  "get \<lparr>asserts = True, debug = True\<rparr> 1
      \<lparr>ref = None, threading_checker = Some 2, ptr = Some (0, 0x1000), raw_ptr = 0x1000\<rparr>
      (two_subjects\<lparr>checkers := [2 \<mapsto> CheckerMutex NoThread]\<rparr>)
    = Inr (0x1000, two_subjects\<lparr>checkers := [2 \<mapsto> CheckerMutex (Thread 1)]\<rparr>)
   \<and> get \<lparr>asserts = True, debug = True\<rparr> 2
      \<lparr>ref = None, threading_checker = Some 2, ptr = Some (0, 0x1000), raw_ptr = 0x1000\<rparr>
      (two_subjects\<lparr>checkers := [2 \<mapsto> CheckerMutex (Thread 1)]\<rparr>)
    = Inl Fatal
   \<and> get \<lparr>asserts = True, debug = True\<rparr> 1
      \<lparr>ref = None, threading_checker = Some 2, ptr = Some (5, 0x1000), raw_ptr = 0x1000\<rparr>
      (two_subjects\<lparr>checkers := [2 \<mapsto> CheckerVoid]\<rparr>)
    = Inr (0, two_subjects\<lparr>checkers := [2 \<mapsto> CheckerVoid]\<rparr>)
   \<and> get \<lparr>asserts = True, debug = True\<rparr> 1
      \<lparr>ref = None, threading_checker = Some 3, ptr = Some (0, 0x1000), raw_ptr = 0x1000\<rparr>
      (two_subjects\<lparr>checkers := [2 \<mapsto> CheckerVoid]\<rparr>)
    = Inr (0, two_subjects\<lparr>checkers := [2 \<mapsto> CheckerVoid]\<rparr>)"
  by (simp add: get_algorithm resolve_spec_def two_subjects_def)

text \<open>
  C9. For a handle whose token is alive, \<open>WeakPtr<void>::get()\<close> returns the cached
  address \<open>raw_ptr\<close>, whatever \<open>ptr\<close> is and whether or not the subject lives; the only
  other outcome is the failed assertion of a call on a thread the checker is not bound
  to, in a build with \<open>asserts\<close>. The same holds once the subject at \<open>a\<close> is destroyed,
  where \<open>get()\<close> at a class type on a handle to that subject gives empty.
\<close>

theorem get_void_ignores_subject:
  assumes "threading_checker h = Some c" and "checkers w c = Some ck"
  shows "get_void b t h w =
           (if asserts b \<and> \<not> fst (CalledOnValidSequence t ck) then Inl Fatal
            else Inr (raw_ptr h,
                      if asserts b
                      then w\<lparr>checkers := (checkers w)(c \<mapsto> snd (CalledOnValidSequence t ck))\<rparr>
                      else w))
       \<and> get_void b t h (destroy_subject a w) =
           (if asserts b \<and> \<not> fst (CalledOnValidSequence t ck) then Inl Fatal
            else Inr (raw_ptr h,
                      if asserts b
                      then (destroy_subject a w)
                             \<lparr>checkers := (checkers w)(c \<mapsto> snd (CalledOnValidSequence t ck))\<rparr>
                      else destroy_subject a w))
       \<and> (\<forall>sc obj. ptr h = Some (sc, a) \<and> memory w a = Some obj \<and> weak_this obj = Some sc \<longrightarrow>
            map_sum id fst (get b t h (destroy_subject a w)) =
              (if asserts b \<and> \<not> fst (CalledOnValidSequence t ck) then Inl Fatal else Inr 0))"
  using assms
  by (auto simp: get_void_def get_def expired_def lock_def assert_CalledOnValidSequence_def
      destroy_subject_def lock_get_def split: option.splits prod.splits)

theorem get_void_ignores_subject_witness:
  "map_sum id fst
     (get_void \<lparr>asserts = True, debug = True\<rparr> 1
        \<lparr>ref = None, threading_checker = Some 2, ptr = Some (0, 0x1000), raw_ptr = 0x1000\<rparr>
        (destroy_subject 0x1000 (two_subjects\<lparr>checkers := [2 \<mapsto> CheckerMutex (Thread 1)]\<rparr>)))
     = Inr 0x1000
   \<and> map_sum id fst
     (get \<lparr>asserts = True, debug = True\<rparr> 1
        \<lparr>ref = None, threading_checker = Some 2, ptr = Some (0, 0x1000), raw_ptr = 0x1000\<rparr>
        (destroy_subject 0x1000 (two_subjects\<lparr>checkers := [2 \<mapsto> CheckerMutex (Thread 1)]\<rparr>)))
     = Inr 0
   \<and> get_void \<lparr>asserts = True, debug = True\<rparr> 2
        \<lparr>ref = None, threading_checker = Some 2, ptr = Some (0, 0x1000), raw_ptr = 0x1000\<rparr>
        (two_subjects\<lparr>checkers := [2 \<mapsto> CheckerMutex (Thread 1)]\<rparr>)
     = Inl Fatal"
proof -
  let ?h = "\<lparr>ref = None, threading_checker = Some 2, ptr = Some (0, 0x1000), raw_ptr = 0x1000\<rparr>"
  let ?w = "two_subjects\<lparr>checkers := [2 \<mapsto> CheckerMutex (Thread 1)]\<rparr>"
  have 1: "threading_checker ?h = Some 2" by simp
  have 2: "checkers ?w 2 = Some (CheckerMutex (Thread 1))" by simp
  have 3: "ptr ?h = Some (0, 0x1000) \<and> memory ?w 0x1000 = Some \<lparr>dyn_class = 0, complete = 0x1000, weak_this = Some 0\<rparr>
     \<and> weak_this \<lparr>dyn_class = 0, complete = 0x1000, weak_this = Some 0\<rparr> = Some 0"
    by (simp add: two_subjects_def)
  note a = get_void_ignores_subject [OF 1 2, of "\<lparr>asserts = True, debug = True\<rparr>" 1 "0x1000"]
  note b = get_void_ignores_subject [OF 1 2, of "\<lparr>asserts = True, debug = True\<rparr>" 2 "0x1000"]
  from a have a2: "map_sum id fst (get_void \<lparr>asserts = True, debug = True\<rparr> 1 ?h (destroy_subject 0x1000 ?w)) = Inr 0x1000"
    by simp
  from a 3 have a3: "map_sum id fst (get \<lparr>asserts = True, debug = True\<rparr> 1 ?h (destroy_subject 0x1000 ?w)) = Inr 0"
    by simp
  from b have b1: "get_void \<lparr>asserts = True, debug = True\<rparr> 2 ?h ?w = Inl Fatal"
    by simp
  from a2 a3 b1 show ?thesis by blast
qed

section \<open>Address conversion\<close>




section \<open>Hashing\<close>

lemma issue_held:
  assumes "exec b DoGetWeakPtr s = Inr s1"
  shows "length (sys_held s) < length (sys_held s1)
       \<and> raw_ptr (sys_held s1 ! length (sys_held s)) = factory_ptr (sys_factory s)"
  using assms
  by (auto simp: GetWeakPtr_def WeakPtr_ctor_def StaticAsWeakPtr_def shared_from_this_def
      split: sum.splits if_splits option.splits)

lemma exec_keeps_handle:
  assumes "exec b e s = Inr s'" and "i < length (sys_held s)" and "e \<noteq> DoReset i"
  shows "i < length (sys_held s') \<and> sys_held s' ! i = sys_held s ! i"
  using assms
  by (cases e) (auto simp: nth_append reset_def split: sum.splits prod.splits if_splits)

lemma run_keeps_handle:
  "run b es s = Inr s' \<Longrightarrow> i < length (sys_held s) \<Longrightarrow> DoReset i \<notin> set es
     \<Longrightarrow> i < length (sys_held s') \<and> sys_held s' ! i = sys_held s ! i"
proof (induction es arbitrary: s)
  case Nil
  then show ?case by simp
next
  case (Cons e es)
  from Cons.prems obtain s1 where e1: "exec b e s = Inr s1" and r: "run b es s1 = Inr s'"
    by (auto split: sum.splits)
  from Cons.prems have ne: "e \<noteq> DoReset i" and nes: "DoReset i \<notin> set es" by auto
  from exec_keeps_handle[OF e1 Cons.prems(2) ne]
  have k: "i < length (sys_held s1)" and eq: "sys_held s1 ! i = sys_held s ! i" by simp_all
  from Cons.IH[OF r k nes] eq show ?case by simp
qed

lemma both_empty_equal:
  "get b t h1 w = Inr (0, w1) \<Longrightarrow> get b t h2 w1 = Inr (0, w2)
     \<Longrightarrow> operator_eq b t h1 h2 w = Inr (True, w2)"
  by (simp add: operator_eq_def get_equal_def)

text \<open>
  C10 (as the code has it). The hash of a handle is its cached address: for a handle
  issued by the factory, the address of the subject at the time of issue. It stays so
  through any later steps (resolutions, invalidations, the destruction of the subject,
  further issues, resets of other handles) other than a \<open>reset()\<close> of that handle
  itself. And two handles of a class type that both resolve to empty compare equal with
  \<open>operator==\<close>, whatever their hashes are.
\<close>

theorem hash_is_cached_address:
  assumes "exec b DoGetWeakPtr s = Inr s1"
    and "run b es s1 = Inr s2"
    and "DoReset (length (sys_held s)) \<notin> set es"
  shows "hash (sys_held s2 ! length (sys_held s)) = factory_ptr (sys_factory s)
       \<and> (\<forall>h1 h2 t w w1 w2.
            get b t h1 w = Inr (0, w1) \<and> get b t h2 w1 = Inr (0, w2) \<longrightarrow>
            operator_eq b t h1 h2 w = Inr (True, w2))"
proof -
  from issue_held[OF assms(1)]
  have l: "length (sys_held s) < length (sys_held s1)"
    and r: "raw_ptr (sys_held s1 ! length (sys_held s)) = factory_ptr (sys_factory s)"
    by simp_all
  from run_keeps_handle[OF assms(2) l assms(3)] r
  have "hash (sys_held s2 ! length (sys_held s)) = factory_ptr (sys_factory s)"
    by (simp add: hash_def)
  then show ?thesis by (simp add: both_empty_equal)
qed

theorem hash_is_cached_address_witness:
  "\<exists>s1 s2.
     exec \<lparr>asserts = True, debug = True\<rparr> DoGetWeakPtr (new_sys ThreadingMutex 1 0x1000 0) = Inr s1
     \<and> run \<lparr>asserts = True, debug = True\<rparr>
           [DoGet (Class 0) 0 1, DoInvalidateWeakPtrs 1, DoDestroySubject, DoGet (Class 0) 0 2] s1
         = Inr s2
     \<and> DoReset (length (sys_held (new_sys ThreadingMutex 1 0x1000 0)))
         \<notin> set [DoGet (Class 0) 0 1, DoInvalidateWeakPtrs 1, DoDestroySubject, DoGet (Class 0) 0 2]
     \<and> hash (sys_held s2 ! 0) = 0x1000
     \<and> map_sum id fst (get \<lparr>asserts = True, debug = True\<rparr> 2 (sys_held s2 ! 0) (sys_world s2)) = Inr 0
     \<and> operator_eq \<lparr>asserts = True, debug = True\<rparr> 1
          \<lparr>ref = None, threading_checker = Some 5, ptr = Some (0, 0x1000), raw_ptr = 0x1000\<rparr>
          \<lparr>ref = None, threading_checker = Some 6, ptr = Some (1, 0x2000), raw_ptr = 0x2000\<rparr>
          two_subjects = Inr (True, two_subjects)
     \<and> hash \<lparr>ref = None, threading_checker = Some 5, ptr = Some (0, 0x1000), raw_ptr = 0x1000\<rparr>
         \<noteq> hash \<lparr>ref = None, threading_checker = Some 6, ptr = Some (1, 0x2000), raw_ptr = 0x2000\<rparr>"
proof -
  let ?b = "\<lparr>asserts = True, debug = True\<rparr>"
  let ?s0 = "new_sys ThreadingMutex 1 0x1000 0"
  let ?es = "[DoGet (Class 0) 0 1, DoInvalidateWeakPtrs 1, DoDestroySubject, DoGet (Class 0) 0 2]"
  let ?h1 = "\<lparr>ref = None, threading_checker = Some 5, ptr = Some (0, 0x1000), raw_ptr = 0x1000\<rparr>"
  let ?h2 = "\<lparr>ref = None, threading_checker = Some 6, ptr = Some (1, 0x2000), raw_ptr = 0x2000\<rparr>"
  define s1 where "s1 = projr (exec ?b DoGetWeakPtr ?s0)"
  define s2 where "s2 = projr (run ?b ?es s1)"
  have e1: "exec ?b DoGetWeakPtr ?s0 = Inr s1"
    unfolding s1_def by (simp add: evals)
  have r2: "run ?b ?es s1 = Inr s2"
    unfolding s2_def s1_def by (simp add: evals)
  have l0: "length (sys_held ?s0) = 0" by (simp add: evals)
  have nr: "DoReset (length (sys_held ?s0)) \<notin> set ?es" by simp
  have p0: "factory_ptr (sys_factory ?s0) = 0x1000" by (simp add: evals)
  have g: "map_sum id fst (get ?b 2 (sys_held s2 ! 0) (sys_world s2)) = Inr 0"
    unfolding s2_def s1_def by (simp add: evals)
  have g1: "get ?b 1 ?h1 two_subjects = Inr (0, two_subjects)"
    by (simp add: two_subjects_def get_def expired_def)
  have g2: "get ?b 1 ?h2 two_subjects = Inr (0, two_subjects)"
    by (simp add: two_subjects_def get_def expired_def)
  note main = hash_is_cached_address [OF e1 r2 nr]
  from main l0 p0 have a: "hash (sys_held s2 ! 0) = 0x1000" by simp
  from main g1 g2 have b: "operator_eq ?b 1 ?h1 ?h2 two_subjects = Inr (True, two_subjects)"
    by blast
  have c: "hash ?h1 \<noteq> hash ?h2" by (simp add: hash_def)
  from e1 r2 nr a g b c show ?thesis by blast
qed

text \<open>
  C10 (as the claim has it) fails on "never changes for the lifetime of the handle":
  a handle issued for the subject at \<open>0x1000\<close> has hash \<open>0x1000\<close>, and hash 0 after its
  \<open>reset()\<close>.
\<close>

theorem hash_changes_counterexample:
  "(case run \<lparr>asserts = True, debug = True\<rparr> [DoGetWeakPtr] (new_sys ThreadingMutex 1 0x1000 0) of
      Inl e \<Rightarrow> False
    | Inr s1 \<Rightarrow>
        (case run \<lparr>asserts = True, debug = True\<rparr> [DoReset 0] s1 of
           Inl e \<Rightarrow> False
         | Inr s2 \<Rightarrow> hash (sys_held s1 ! 0) = 0x1000 \<and> hash (sys_held s2 ! 0) = 0))"
  by (simp add: evals hash_def)


section \<open>Erasing and recovering the static type\<close>

lemma get_copy_ref:
  "map_sum id fst (get b t h (copy_ref r w)) = map_sum id fst (get b t h w)"
  by (auto simp: get_def copy_ref_def expired_def lock_def assert_CalledOnValidSequence_def lock_get_def
      split: option.splits prod.splits)

lemma CalledOnValidSequence_again:
  "CalledOnValidSequence t ck = (True, ck') \<Longrightarrow> CalledOnValidSequence t ck' = (True, ck')"
proof (cases ck)
  case CheckerVoid
  then show "CalledOnValidSequence t ck = (True, ck') \<Longrightarrow> ?thesis" by auto
next
  case (CheckerMutex v)
  then show "CalledOnValidSequence t ck = (True, ck') \<Longrightarrow> ?thesis"
    by (cases v) (auto split: if_splits)
qed

lemma operator_eq_self:
  "get b t h w = Inr (a, w1) \<Longrightarrow> \<exists>w2. operator_eq b t h h w = Inr (True, w2)"
  by (auto simp: operator_eq_def get_equal_def get_def expired_def lock_def assert_CalledOnValidSequence_def lock_get_def
      CalledOnValidSequence_again split: option.splits prod.splits if_splits)

lemma equal_unrelated:
  "T \<noteq> U \<Longrightarrow> \<not> H T U \<Longrightarrow> \<not> H U T
     \<Longrightarrow> equal_WeakPtr H L b t (Class T) (Class U) h r w = Inr (False, w)"
  by (simp add: is_same_def)

text \<open>
  C7 (as the code has it). For a handle of class \<open>T\<close> whose cached address is not null,
  \<open>erase_type()\<close> followed by \<open>recover_type<U>()\<close>, for the original class or any other
  class \<open>U\<close>, returns the handle itself, member by member; the flag gains two owners, the
  erased and the recovered handle. The recovered handle resolves to the address the
  original resolves to. At the original class it compares equal to the original under
  \<open>operator==\<close> wherever it resolves; at an unrelated class the cross-type \<open>equal\<close> of the
  original with it is false, as for any two handles of unrelated classes. A handle whose
  cached address is null is recovered as the empty handle.
\<close>

theorem erase_then_recover_identity:
  "(raw_ptr h \<noteq> 0 \<longrightarrow>
      (\<exists>r W. erase_then_recover H L T U h w = Inr (r, W)
         \<and> r = h
         \<and> W = copy_ref (ref h) (copy_ref (ref h) w)
         \<and> map_sum id fst (get b t r W) = map_sum id fst (get b t h w)
         \<and> (U = T \<longrightarrow>
              (\<forall>a w1. get b t r W = Inr (a, w1) \<longrightarrow>
                 (\<exists>w2. operator_eq b t h r W = Inr (True, w2))))
         \<and> (T \<noteq> U \<and> \<not> H T U \<and> \<not> H U T \<longrightarrow>
              equal_WeakPtr H L b t (Class T) (Class U) h r W = Inr (False, W))))
   \<and> (raw_ptr h = 0 \<longrightarrow>
        map_sum id fst (erase_then_recover H L T U h w) = Inr WeakPtr_null)"
proof (intro conjI impI)
  assume n: "raw_ptr h \<noteq> 0"
  let ?W = "copy_ref (ref h) (copy_ref (ref h) w)"
  have e: "erase_then_recover H L T U h w = Inr (h, ?W)"
    using n by (simp add: erase_then_recover_def erase_type_def WeakPtr_from_void_def Let_def)
  have g: "map_sum id fst (get b t h ?W) = map_sum id fst (get b t h w)"
    by (simp add: get_copy_ref)
  have o: "U = T \<longrightarrow> (\<forall>a w1. get b t h ?W = Inr (a, w1) \<longrightarrow>
                 (\<exists>w2. operator_eq b t h h ?W = Inr (True, w2)))"
    by (blast intro: operator_eq_self)
  have u: "T \<noteq> U \<and> \<not> H T U \<and> \<not> H U T \<longrightarrow>
              equal_WeakPtr H L b t (Class T) (Class U) h h ?W = Inr (False, ?W)"
    by (blast intro: equal_unrelated)
  from e g o u
  show "\<exists>r W. erase_then_recover H L T U h w = Inr (r, W)
         \<and> r = h
         \<and> W = copy_ref (ref h) (copy_ref (ref h) w)
         \<and> map_sum id fst (get b t r W) = map_sum id fst (get b t h w)
         \<and> (U = T \<longrightarrow>
              (\<forall>a w1. get b t r W = Inr (a, w1) \<longrightarrow>
                 (\<exists>w2. operator_eq b t h r W = Inr (True, w2))))
         \<and> (T \<noteq> U \<and> \<not> H T U \<and> \<not> H U T \<longrightarrow>
              equal_WeakPtr H L b t (Class T) (Class U) h r W = Inr (False, W))"
    by blast
next
  assume "raw_ptr h = 0"
  then show "map_sum id fst (erase_then_recover H L T U h w) = Inr WeakPtr_null"
    by (simp add: erase_then_recover_def erase_type_def WeakPtr_from_void_def Let_def reset_def)
qed

theorem erase_then_recover_identity_witness:
  "map_sum id fst
     (erase_then_recover base_derived no_offset 0 0
        \<lparr>ref = Some 3, threading_checker = Some 2, ptr = Some (0, 0x1000), raw_ptr = 0x1000\<rparr>
        (two_subjects\<lparr>checkers := [2 \<mapsto> CheckerVoid], flags := (\<lambda>c. if c = 3 then 2 else 0)\<rparr>))
     = Inr \<lparr>ref = Some 3, threading_checker = Some 2, ptr = Some (0, 0x1000), raw_ptr = 0x1000\<rparr>
   \<and> map_sum id fst
     (erase_then_recover base_derived no_offset 0 2
        \<lparr>ref = Some 3, threading_checker = Some 2, ptr = Some (0, 0x1000), raw_ptr = 0x1000\<rparr>
        (two_subjects\<lparr>checkers := [2 \<mapsto> CheckerVoid], flags := (\<lambda>c. if c = 3 then 2 else 0)\<rparr>))
     = Inr \<lparr>ref = Some 3, threading_checker = Some 2, ptr = Some (0, 0x1000), raw_ptr = 0x1000\<rparr>
   \<and> map_sum id fst
     (erase_then_recover base_derived no_offset 1 1
        \<lparr>ref = Some 3, threading_checker = Some 2, ptr = Some (0, 0x1000), raw_ptr = 0\<rparr>
        (two_subjects\<lparr>checkers := [2 \<mapsto> CheckerVoid], flags := (\<lambda>c. if c = 3 then 2 else 0)\<rparr>))
     = Inr WeakPtr_null"
proof -
  let ?h = "\<lparr>ref = Some 3, threading_checker = Some 2, ptr = Some (0, 0x1000), raw_ptr = 0x1000\<rparr>"
  let ?n = "\<lparr>ref = Some 3, threading_checker = Some 2, ptr = Some (0, 0x1000), raw_ptr = 0\<rparr>"
  let ?w = "two_subjects\<lparr>checkers := [2 \<mapsto> CheckerVoid], flags := (\<lambda>c. if c = 3 then 2 else 0)\<rparr>"
  note a = erase_then_recover_identity [where h = ?h and H = base_derived and L = no_offset
      and T = 0 and U = 0 and w = ?w]
  note b = erase_then_recover_identity [where h = ?h and H = base_derived and L = no_offset
      and T = 0 and U = 2 and w = ?w]
  note c = erase_then_recover_identity [where h = ?n and H = base_derived and L = no_offset
      and T = 1 and U = 1 and w = ?w]
  from a have 1: "map_sum id fst (erase_then_recover base_derived no_offset 0 0 ?h ?w) = Inr ?h"
    by auto
  from b have 2: "map_sum id fst (erase_then_recover base_derived no_offset 0 2 ?h ?w) = Inr ?h"
    by auto
  from c have 3: "map_sum id fst (erase_then_recover base_derived no_offset 1 1 ?n ?w) = Inr WeakPtr_null"
    by simp
  from 1 2 3 show ?thesis by blast
qed

text \<open>
  C7 (as the claim has it) fails in both halves. A handle of class 0 for the subject at
  \<open>0x1000\<close>, erased and recovered at class 2, which is neither a base of class 0 nor
  derived from it, is not the empty handle and resolves to \<open>0x1000\<close>. And the handle of
  class 1 that the converting constructor makes from it has a null cached address, as
  the subject is no instance of class 1, and resolves to \<open>0x1000\<close>; erased and recovered
  at its own class 1, it is the empty handle and resolves to empty.
\<close>

theorem recover_unrelated_counterexample:
  "(case run \<lparr>asserts = True, debug = True\<rparr> [DoGetWeakPtr] (new_sys ThreadingMutex 1 0x1000 0) of
      Inl e \<Rightarrow> False
    | Inr s \<Rightarrow>
        (case erase_then_recover base_derived no_offset 0 2 (sys_held s ! 0) (sys_world s) of
           Inl e \<Rightarrow> False
         | Inr (r, w) \<Rightarrow>
             \<not> base_derived 0 2 \<and> \<not> base_derived 2 0
             \<and> r \<noteq> WeakPtr_null
             \<and> map_sum id fst (get \<lparr>asserts = True, debug = True\<rparr> 1 r w) = Inr 0x1000)
        \<and> (case WeakPtr_from base_derived no_offset (Class 0) (Class 1) (sys_held s ! 0)
                   (sys_world s) of
             Inl e \<Rightarrow> False
           | Inr (d, w1) \<Rightarrow>
               raw_ptr d = 0
               \<and> map_sum id fst (get \<lparr>asserts = True, debug = True\<rparr> 1 d w1) = Inr 0x1000
               \<and> (case erase_then_recover base_derived no_offset 1 1 d w1 of
                    Inl e \<Rightarrow> False
                  | Inr (r, w2) \<Rightarrow>
                      r = WeakPtr_null
                      \<and> map_sum id fst (get \<lparr>asserts = True, debug = True\<rparr> 1 r w2) = Inr 0)))"
  by (simp add: evals erase_then_recover_def erase_type_def WeakPtr_from_def WeakPtr_from_void_def
      base_derived_def no_offset_def is_same_def dynamic_cast_def)

section \<open>Where the code departs from the claims\<close>

text \<open>
  C3. A factory right after construction: no handle was issued, the flag has one owner
  (the factory), and \<open>HasWeakPtrs()\<close> is true, since \<open>HasRefs\<close> counts the owner its own
  \<open>lock()\<close> adds. After \<open>InvalidateWeakPtrs()\<close> and the issue of a handle that a client
  holds, \<open>HasWeakPtrs()\<close> is false, since the factory has no flag any more.
\<close>

theorem HasWeakPtrs_without_handles:
  "sys_held (new_sys ThreadingMutex 1 0x1000 0) = []
   \<and> factory_ref (sys_factory (new_sys ThreadingMutex 1 0x1000 0)) = Some 1
   \<and> flags (sys_world (new_sys ThreadingMutex 1 0x1000 0)) 1 = 1
   \<and> HasWeakPtrs (sys_factory (new_sys ThreadingMutex 1 0x1000 0))
        (sys_world (new_sys ThreadingMutex 1 0x1000 0))
   \<and> (case run \<lparr>asserts = True, debug = True\<rparr> [DoInvalidateWeakPtrs 1, DoGetWeakPtr]
              (new_sys ThreadingMutex 1 0x1000 0) of
         Inl e \<Rightarrow> False
       | Inr s \<Rightarrow> length (sys_held s) = 1 \<and> \<not> HasWeakPtrs (sys_factory s) (sys_world s))"
  by (simp add: evals HasWeakPtrs_def HasRefs_def lock_flag_def)

text \<open>
  C4. Issue a handle, invalidate, issue another one. The factory then has a new checker
  (control block 2; the old one, 0, is destroyed) but no flag: \<open>ref_\<close> is null, the second
  handle carries a null \<open>ref_\<close> too, and \<open>HasWeakPtrs()\<close> is false although a client holds
  that handle. The first handle resolves to empty, the second one to the subject.
\<close>

theorem InvalidateWeakPtrs_leaves_no_flag:
  "(case run \<lparr>asserts = True, debug = True\<rparr> [DoGetWeakPtr, DoInvalidateWeakPtrs 1, DoGetWeakPtr]
           (new_sys ThreadingMutex 1 0x1000 0) of
      Inl e \<Rightarrow> False
    | Inr s \<Rightarrow>
        factory_ref (sys_factory s) = None
        \<and> factory_threading (sys_factory s) = 2
        \<and> checkers (sys_world s) 0 = None
        \<and> checkers (sys_world s) 2 = Some (CheckerMutex (Thread 1))
        \<and> sys_held s =
            [\<lparr>ref = Some 1, threading_checker = Some 0, ptr = Some (0, 0x1000), raw_ptr = 0x1000\<rparr>,
             \<lparr>ref = None, threading_checker = Some 2, ptr = Some (0, 0x1000), raw_ptr = 0x1000\<rparr>]
        \<and> map_sum id fst (get \<lparr>asserts = True, debug = True\<rparr> 1 (sys_held s ! 0) (sys_world s)) = Inr 0
        \<and> map_sum id fst (get \<lparr>asserts = True, debug = True\<rparr> 1 (sys_held s ! 1) (sys_world s)) = Inr 0x1000
        \<and> \<not> HasWeakPtrs (sys_factory s) (sys_world s))"
  by (simp add: evals HasWeakPtrs_def HasRefs_def lock_flag_def)

text \<open>
  C6. Two subjects, of class 0 at \<open>0x1000\<close> and of class 1, derived from class 0, at
  \<open>0x2000\<close>, and a handle for each, resolving to these two addresses. Called on the handle
  of the base class with the handle of the derived class, \<open>equal\<close> answers true: its
  last branch compares the handle with a copy of itself. Called the other way round it
  converts and compares, and answers false.
\<close>

theorem equal_base_with_derived:
  "(case new_WeakPtrFactory ThreadingVoid 1 0x1000 two_subjects of
      (fB, w1) \<Rightarrow>
        (case new_WeakPtrFactory ThreadingVoid 1 0x2000 w1 of
           (fD, w2) \<Rightarrow>
             (case GetWeakPtr \<lparr>asserts = True, debug = True\<rparr> fB w2 of
                Inl e \<Rightarrow> False
              | Inr (hB, w3) \<Rightarrow>
                  (case GetWeakPtr \<lparr>asserts = True, debug = True\<rparr> fD w3 of
                     Inl e \<Rightarrow> False
                   | Inr (hD, w4) \<Rightarrow>
                       base_derived 0 1
                       \<and> map_sum id fst (get \<lparr>asserts = True, debug = True\<rparr> 1 hB w4) = Inr 0x1000
                       \<and> map_sum id fst (get \<lparr>asserts = True, debug = True\<rparr> 1 hD w4) = Inr 0x2000
                       \<and> map_sum id fst
                            (equal_WeakPtr base_derived no_offset \<lparr>asserts = True, debug = True\<rparr> 1
                               (Class 0) (Class 1) hB hD w4) = Inr True
                       \<and> map_sum id fst
                            (equal_WeakPtr base_derived no_offset \<lparr>asserts = True, debug = True\<rparr> 1
                               (Class 1) (Class 0) hD hB w4) = Inr False))))"
  by (simp add: evals two_subjects_def base_derived_def no_offset_def is_same_def with_temporary_def
      WeakPtr_from_def WeakPtr_dtor_def get_equal_def dynamic_cast_def)

end
